theory Spec2Isabelle
  imports Main "HOL-Library.Word"
begin

unbundle bit_operations_syntax

section \<open>Python values used by \<open>WC.py\<close>\<close>

text \<open>
  A Python \<open>str\<close> is a sequence of Unicode code points, so a string is modelled as a list
  of code points (natural numbers). The ASCII literals of the source are written with
  \<open>ustr\<close>, which maps every character of an Isabelle literal to its code.
\<close>

type_synonym codepoint = nat
type_synonym str = "codepoint list"

definition ustr :: "string \<Rightarrow> str" where
  "ustr s = map of_char s"

text \<open>
  The exceptions of the program. \<open>exn\<close> holds the instances of Python's class
  \<open>Exception\<close>, each with the text that \<open>str(e)\<close> gives: the built-in errors that the
  source can raise, and \<open>RemoteError\<close> for any \<open>Exception\<close> raised inside the client
  library (connection, authentication, rate limit, status errors). \<open>raised\<close> is what a
  call can raise: an \<open>Exception\<close>, or a \<open>BaseException\<close> that is not an \<open>Exception\<close>
  (\<open>KeyboardInterrupt\<close>, \<open>SystemExit\<close>), which a handler \<open>except Exception\<close> lets through.
\<close>

datatype exn =
    ValueError str
  | IndexError str
  | AttributeError str
  | RemoteError str

datatype raised =
    Exception exn
  | BaseException str

fun str_exn :: "exn \<Rightarrow> str" where
  "str_exn (ValueError m) = m"
| "str_exn (IndexError m) = m"
| "str_exn (AttributeError m) = m"
| "str_exn (RemoteError m) = m"

text \<open>\<open>xs[i]\<close> for a non-negative index: \<open>IndexError\<close> out of range.\<close>

definition py_index :: "'a list \<Rightarrow> nat \<Rightarrow> exn + 'a" where
  "py_index xs i =
     (if i < length xs then Inr (xs ! i)
      else Inl (IndexError (ustr ''list index out of range'')))"

text \<open>
  \<open>s.split(sep)\<close> for a one-character separator: the pieces between the occurrences of
  the separator, empty pieces included; a string with \<open>n\<close> separators gives \<open>n + 1\<close>
  pieces, and the empty string gives one empty piece.
\<close>

fun py_split :: "codepoint \<Rightarrow> str \<Rightarrow> str list" where
  "py_split sep [] = [[]]"
| "py_split sep (c # cs) =
     (if c = sep then [] # py_split sep cs
      else (case py_split sep cs of
              [] \<Rightarrow> [[c]]
            | l # ls \<Rightarrow> (c # l) # ls))"

text \<open>
  The characters that \<open>str.strip()\<close> without argument removes: those for which
  \<open>str.isspace\<close> holds (tab, line feed, vertical tab, form feed, carriage return, the
  separators \<open>0x1C\<close> to \<open>0x1F\<close>, space, \<open>NEL\<close>, no-break space and the Unicode spaces).
\<close>

definition py_whitespace :: "codepoint list" where
  "py_whitespace =
     [0x09, 0x0A, 0x0B, 0x0C, 0x0D, 0x1C, 0x1D, 0x1E, 0x1F, 0x20, 0x85, 0xA0,
      0x1680, 0x2000, 0x2001, 0x2002, 0x2003, 0x2004, 0x2005, 0x2006, 0x2007,
      0x2008, 0x2009, 0x200A, 0x2028, 0x2029, 0x202F, 0x205F, 0x3000]"

definition py_isspace :: "codepoint \<Rightarrow> bool" where
  "py_isspace c = (c \<in> set py_whitespace)"

definition py_lstrip_ws :: "str \<Rightarrow> str" where
  "py_lstrip_ws s = dropWhile py_isspace s"

definition py_rstrip_ws :: "str \<Rightarrow> str" where
  "py_rstrip_ws s = rev (dropWhile py_isspace (rev s))"

definition py_strip :: "str \<Rightarrow> str" where
  "py_strip s = py_rstrip_ws (py_lstrip_ws s)"

text \<open>\<open>s.lstrip(chars)\<close>: the longest prefix made of characters of \<open>chars\<close> is removed.\<close>

definition py_lstrip :: "str \<Rightarrow> str \<Rightarrow> str" where
  "py_lstrip chars s = dropWhile (\<lambda>c. c \<in> set chars) s"

text \<open>\<open>sep.join(xs)\<close>.\<close>

fun py_join :: "str \<Rightarrow> str list \<Rightarrow> str" where
  "py_join sep [] = []"
| "py_join sep [x] = x"
| "py_join sep (x # y # ys) = x @ sep @ py_join sep (y # ys)"

text \<open>
  The number of positions of \<open>s\<close> at which \<open>sub\<close> occurs as a contiguous substring (the
  overlapping occurrences are all counted).
\<close>

primrec occurrences :: "str \<Rightarrow> str \<Rightarrow> nat" where
  "occurrences sub [] = (if sub = [] then 1 else 0)"
| "occurrences sub (c # cs) =
     (if take (length sub) (c # cs) = sub then 1 else 0) + occurrences sub cs"

text \<open>
  Truth value of an optional string (\<open>None\<close> and \<open>''\<close> are false), and \<open>a or b\<close>
  on such values.
\<close>

definition py_truthy :: "str option \<Rightarrow> bool" where
  "py_truthy v = (case v of None \<Rightarrow> False | Some s \<Rightarrow> s \<noteq> [])"

definition py_or :: "str option \<Rightarrow> str option \<Rightarrow> str option" where
  "py_or a b = (if py_truthy a then a else b)"

text \<open>
  What the program does to the outside, in the order it does it: the calls to the user
  interface (\<open>st.set_page_config\<close>, \<open>st.title\<close>, \<open>st.error\<close>, \<open>st.stop\<close>), \<open>print\<close>, the
  construction of the \<open>Groq\<close> client and the chat-completion request sent through it.
\<close>

record request =
  prompt_text :: str
  image_url :: str
  model :: str
  max_tokens :: nat

datatype event =
    SetPageConfig str str
  | StTitle str
  | StError str
  | StStop
  | Print str
  | CreateClient str
  | ChatCompletion request

text \<open>
  The completion object, as far as the program reads it: \<open>choices\<close> lists, for every
  choice, \<open>choice.message.content\<close>, which is \<open>None\<close> when the message has no text.
\<close>

record response =
  choices :: "str option list"

type_synonym byte = "8 word"

definition newline :: codepoint where
  "newline = 0x0A"

section \<open>\<open>WasteClassifier\<close>\<close>

definition VALID_CATEGORIES :: "str list" where
  "VALID_CATEGORIES =
     [ustr ''Recycling'', ustr ''Organic'', ustr ''Trash'', ustr ''Electronics'',
      ustr ''Miscellaneous'', ustr ''Plastic'', ustr ''Metal'', ustr ''Glass'',
      ustr ''Paper'', ustr ''Textiles'', ustr ''Batteries'', ustr ''Hazardous Waste'',
      ustr ''Food Waste'', ustr ''Bulky Waste'', ustr ''E-waste'', ustr ''Toxic Waste'']"

text \<open>The pair that \<open>clean_response\<close> and \<open>classify_image\<close> return when they give up.\<close>

definition fallback :: "str \<times> str" where
  "fallback = (ustr ''Miscellaneous'', ustr ''General waste disposal recommended'')"

subsection \<open>\<open>__init__\<close>\<close>

text \<open>
  \<^verbatim>\<open>
  load_dotenv()
  api_key = api_key or os.getenv('GROQ_API_KEY')
  if not api_key:
      st.error("No Groq API key found. Please set GROQ_API_KEY in .env file.")
      raise ValueError("No API key provided")
  self.client = Groq(api_key=api_key)
  \<close>
  \<open>env\<close> is the process environment as \<open>os.getenv\<close> sees it after \<open>load_dotenv()\<close>.
  The object that is built holds the client, which is determined by the key.
\<close>

record classifier =
  client_api_key :: str

definition init :: "(str \<rightharpoonup> str) \<Rightarrow> str option \<Rightarrow> (raised + classifier) \<times> event list" where
  "init env api_key =
     (let api_key = py_or api_key (env (ustr ''GROQ_API_KEY'')) in
      if \<not> py_truthy api_key then
        (Inl (Exception (ValueError (ustr ''No API key provided''))),
         [StError (ustr ''No Groq API key found. Please set GROQ_API_KEY in .env file.'')])
      else
        (Inr \<lparr>client_api_key = the api_key\<rparr>, [CreateClient (the api_key)]))"

subsection \<open>\<open>encode_image\<close>\<close>

text \<open>
  \<open>base64.b64encode(data).decode('utf-8')\<close>. Every three bytes give four characters of
  the alphabet \<open>A-Z a-z 0-9 + /\<close>, six bits each; a last group of one or two bytes is
  filled with zero bits and padded with \<open>=\<close>. The output is ASCII, so decoding it as
  UTF-8 gives one code point for each output byte.
\<close>

definition b64_char :: "nat \<Rightarrow> codepoint" where
  "b64_char n =
     (if n < 26 then 65 + n
      else if n < 52 then 97 + (n - 26)
      else if n < 62 then 48 + (n - 52)
      else if n = 62 then 43
      else 47)"

definition b64_pad :: codepoint where
  "b64_pad = 61"

fun b64encode :: "byte list \<Rightarrow> str" where
  "b64encode [] = []"
| "b64encode [a] =
     [b64_char (unat (drop_bit 2 a)),
      b64_char (unat (push_bit 4 (a AND 3))),
      b64_pad, b64_pad]"
| "b64encode [a, b] =
     [b64_char (unat (drop_bit 2 a)),
      b64_char (unat (push_bit 4 (a AND 3) OR drop_bit 4 b)),
      b64_char (unat (push_bit 2 (b AND 15))),
      b64_pad]"
| "b64encode (a # b # c # data) =
     [b64_char (unat (drop_bit 2 a)),
      b64_char (unat (push_bit 4 (a AND 3) OR drop_bit 4 b)),
      b64_char (unat (push_bit 2 (b AND 15) OR drop_bit 6 c)),
      b64_char (unat (c AND 63))]
     @ b64encode data"

text \<open>
  \<^verbatim>\<open>
  _, encoded_image = cv2.imencode('.jpg', frame)
  return base64.b64encode(encoded_image.tobytes()).decode('utf-8')
  \<close>
  The JPEG compression is a parameter: \<open>imencode frame\<close> is the pair that
  \<open>cv2.imencode('.jpg', frame)\<close> returns, the success flag and the compressed bytes, or
  what it raises.
\<close>

definition encode_image :: "('frame \<Rightarrow> raised + bool \<times> byte list) \<Rightarrow> 'frame \<Rightarrow> raised + str" where
  "encode_image imencode frame =
     (case imencode frame of
        Inl r \<Rightarrow> Inl r
      | Inr (_, encoded_image) \<Rightarrow> Inr (b64encode encoded_image))"

text \<open>
  The decoder of the receiving side, \<open>base64.b64decode\<close> on text in canonical form
  (RFC 4648): groups of four characters, \<open>=\<close> only at the end of the last group.
  \<open>None\<close> stands for text that is not in this form.
\<close>

definition b64_value :: "codepoint \<Rightarrow> byte option" where
  "b64_value c =
     (if 65 \<le> c \<and> c \<le> 90 then Some (of_nat (c - 65))
      else if 97 \<le> c \<and> c \<le> 122 then Some (of_nat (c - 97 + 26))
      else if 48 \<le> c \<and> c \<le> 57 then Some (of_nat (c - 48 + 52))
      else if c = 43 then Some 62
      else if c = 47 then Some 63
      else None)"

fun b64decode :: "str \<Rightarrow> byte list option" where
  "b64decode [] = Some []"
| "b64decode (c0 # c1 # c2 # c3 # text) =
     (case (b64_value c0, b64_value c1) of
        (Some s0, Some s1) \<Rightarrow>
          if c2 = b64_pad \<and> c3 = b64_pad \<and> text = [] then
            Some [push_bit 2 s0 OR drop_bit 4 s1]
          else
            (case b64_value c2 of
               None \<Rightarrow> None
             | Some s2 \<Rightarrow>
                 if c3 = b64_pad \<and> text = [] then
                   Some [push_bit 2 s0 OR drop_bit 4 s1, push_bit 4 s1 OR drop_bit 2 s2]
                 else
                   (case b64_value c3 of
                      None \<Rightarrow> None
                    | Some s3 \<Rightarrow>
                        (case b64decode text of
                           None \<Rightarrow> None
                         | Some data \<Rightarrow>
                             Some (  (push_bit 2 s0 OR drop_bit 4 s1)
                                   # (push_bit 4 s1 OR drop_bit 2 s2)
                                   # (push_bit 6 s2 OR s3)
                                   # data))))
      | _ \<Rightarrow> None)"
| "b64decode _ = None"

subsection \<open>\<open>clean_response\<close>\<close>

text \<open>
  \<^verbatim>\<open>
  cleaned_lines = [line.strip().lstrip('0123456789. ') for line in response.split('\n')]
  if len(cleaned_lines) >= 2:
      return cleaned_lines[0], cleaned_lines[1]
  return "Miscellaneous", "General waste disposal recommended"
  \<close>
  \<open>clean_line\<close> is the body of the comprehension.
\<close>

definition clean_line :: "str \<Rightarrow> str" where
  "clean_line line = py_lstrip (ustr ''0123456789. '') (py_strip line)"

definition clean_response :: "str \<Rightarrow> exn + (str \<times> str)" where
  "clean_response response =
     (let cleaned_lines = map clean_line (py_split newline response) in
      if length cleaned_lines \<ge> 2 then
        (case py_index cleaned_lines 0 of
           Inl e \<Rightarrow> Inl e
         | Inr category \<Rightarrow>
             (case py_index cleaned_lines 1 of
                Inl e \<Rightarrow> Inl e
              | Inr advice \<Rightarrow> Inr (category, advice)))
      else Inr fallback)"

subsection \<open>\<open>classify_image\<close>\<close>

text \<open>The text of the f-string before and after the list of categories.\<close>

definition prompt_head :: str where
  "prompt_head = ustr (
    ''\<newline>'' @
    ''                            EXPERT WASTE CLASSIFICATION TASK: Analyze the image and follow these STRICT guidelines:\<newline>'' @
    ''                            CLASSIFICATION REQUIREMENTS:\<newline>'' @
    ''                            - SELECT EXACTLY ONE waste category from this PRECISE list: '')"

definition prompt_tail :: str where
  "prompt_tail = ustr (
    ''\<newline>'' @
    ''                            - Base classification on VISUAL CHARACTERISTICS and MATERIAL COMPOSITION\<newline>'' @
    ''                            - MOST SPECIFIC category takes precedence\<newline>'' @
    ''                            - IGNORE context, focus SOLELY on the object'' @ [CHR 0x27] @ ''s inherent waste type\<newline>'' @
    ''\<newline>'' @
    ''                            RESPONSE FORMAT (MANDATORY):\<newline>'' @
    ''                            - FIRST LINE: Waste Category (ONE WORD)\<newline>'' @
    ''                            - SECOND LINE: Concise, actionable disposal recommendation\<newline>'' @
    ''                            - NO additional text, numbering, or explanatory content\<newline>'' @
    ''                            - USE clear, professional language\<newline>'' @
    ''                            - PRIORITIZE local, environmentally responsible disposal methods\<newline>'' @
    ''\<newline>'' @
    ''                            CRITICAL CONSTRAINTS:\<newline>'' @
    ''                            - Maximum 10 words for category\<newline>'' @
    ''                            - Maximum 40 words for disposal advice\<newline>'' @
    ''                            - ZERO speculation or unnecessary details\<newline>'' @
    ''                            '')"

definition prompt :: str where
  "prompt = prompt_head @ py_join (ustr '', '') VALID_CATEGORIES @ prompt_tail"

text \<open>The arguments of \<open>self.client.chat.completions.create\<close>.\<close>

definition chat_request :: "str \<Rightarrow> request" where
  "chat_request base64_image =
     \<lparr>prompt_text = prompt,
      image_url = ustr ''data:image/jpeg;base64,'' @ base64_image,
      model = ustr ''meta-llama/llama-4-scout-17b-16e-instruct'',
      max_tokens = 100\<rparr>"

text \<open>
  The body of the \<open>try\<close> block:
  \<^verbatim>\<open>
  response = self.client.chat.completions.create(...)
  full_response = response.choices[0].message.content.strip()
  print("full_response .......................", full_response)
  return self.clean_response(full_response)
  \<close>
  \<open>remote\<close> is the remote service seen through the client: the completion it returns for
  a request, or what the call raises. \<open>choices[0]\<close> raises \<open>IndexError\<close> on an empty
  list and \<open>.strip()\<close> raises \<open>AttributeError\<close> on a content that is \<open>None\<close>.
\<close>

definition classify_try :: "(request \<Rightarrow> raised + response) \<Rightarrow> str \<Rightarrow> (raised + str \<times> str) \<times> event list" where
  "classify_try remote base64_image =
     (let sent = [ChatCompletion (chat_request base64_image)] in
      case remote (chat_request base64_image) of
        Inl r \<Rightarrow> (Inl r, sent)
      | Inr response \<Rightarrow>
          (case py_index (choices response) 0 of
             Inl e \<Rightarrow> (Inl (Exception e), sent)
           | Inr None \<Rightarrow>
               (Inl (Exception (AttributeError
                  (ustr (CHR 0x27 # ''NoneType'' @ CHR 0x27 # '' object has no attribute ''
                         @ CHR 0x27 # ''strip'' @ [CHR 0x27])))), sent)
           | Inr (Some content) \<Rightarrow>
               (let full_response = py_strip content;
                    printed = sent @ [Print (ustr ''full_response ....................... ''
                                             @ full_response)] in
                case clean_response full_response of
                  Inl e \<Rightarrow> (Inl (Exception e), printed)
                | Inr result \<Rightarrow> (Inr result, printed))))"

text \<open>
  \<^verbatim>\<open>
  if not base64_image:
      st.error("Empty image input")
      return "Miscellaneous", "General waste disposal recommended"
  try:
      ...
  except Exception as e:
      st.error(f"Classification error: {e}")
      return "Miscellaneous", "General waste disposal recommended"
  \<close>
  The handler takes every \<open>Exception\<close>; anything else that was raised goes on to the caller.
\<close>

definition classify_image :: "(request \<Rightarrow> raised + response) \<Rightarrow> str \<Rightarrow> (raised + str \<times> str) \<times> event list" where
  "classify_image remote base64_image =
     (if base64_image = [] then
        (Inr fallback, [StError (ustr ''Empty image input'')])
      else
        (case classify_try remote base64_image of
           (Inl (Exception e), log) \<Rightarrow>
             (Inr fallback, log @ [StError (ustr ''Classification error: '' @ str_exn e)])
         | (Inl (BaseException b), log) \<Rightarrow> (Inl (BaseException b), log)
         | (Inr result, log) \<Rightarrow> (Inr result, log)))"

subsection \<open>\<open>main\<close>\<close>

text \<open>
  \<^verbatim>\<open>
  st.set_page_config(page_title="Waste Classifier", page_icon=":recycle:")
  st.title("... Real-Time Waste Classification")
  try:
      classifier = WasteClassifier()
  except ValueError:
      st.stop()
  ...
  \<close>
  The title starts with the character \<open>U+1F30D\<close>. \<open>st.stop()\<close> ends the run of the
  script. \<open>rest\<close> is everything after the \<open>try\<close> statement: the session state, the
  camera, the video frame, the two buttons and the result panels.
\<close>

datatype run = Stopped | Finished | Crashed raised

definition main :: "(str \<rightharpoonup> str) \<Rightarrow> (classifier \<Rightarrow> run \<times> event list) \<Rightarrow> run \<times> event list" where
  "main env rest =
     (let page = [SetPageConfig (ustr ''Waste Classifier'') (ustr '':recycle:''),
                  StTitle (0x1F30D # ustr '' Real-Time Waste Classification'')] in
      case init env None of
        (Inl (Exception (ValueError m)), log) \<Rightarrow> (Stopped, page @ log @ [StStop])
      | (Inl r, log) \<Rightarrow> (Crashed r, page @ log)
      | (Inr classifier, log) \<Rightarrow>
          (case rest classifier of (r, log') \<Rightarrow> (r, page @ log @ log')))"

section \<open>Properties of the string operations\<close>

lemma py_split_not_Nil: "py_split sep s \<noteq> []"
  by (induction s) (auto split: list.splits)

lemma length_py_split: "length (py_split sep s) = Suc (count_list s sep)"
  by (induction s) (auto split: list.splits simp: py_split_not_Nil)

lemma py_split_no_sep: "sep \<notin> set s \<Longrightarrow> py_split sep s = [s]"
  by (induction s) auto

lemma hd_py_split: "hd (py_split sep s) = takeWhile (\<lambda>c. c \<noteq> sep) s"
  by (induction s) (auto split: list.splits simp: py_split_not_Nil)

lemma tl_py_split:
  "sep \<in> set s \<Longrightarrow> tl (py_split sep s) = py_split sep (tl (dropWhile (\<lambda>c. c \<noteq> sep) s))"
  by (induction s) (auto split: list.splits simp: py_split_not_Nil)

lemma py_split_two:
  assumes "sep \<in> set s"
  shows "\<exists>rest. py_split sep s =
           takeWhile (\<lambda>c. c \<noteq> sep) s
           # takeWhile (\<lambda>c. c \<noteq> sep) (tl (dropWhile (\<lambda>c. c \<noteq> sep) s))
           # rest"
proof -
  let ?t = "tl (dropWhile (\<lambda>c. c \<noteq> sep) s)"
  have a: "py_split sep s = hd (py_split sep s) # tl (py_split sep s)"
    by (simp add: py_split_not_Nil)
  have b: "py_split sep ?t = hd (py_split sep ?t) # tl (py_split sep ?t)"
    by (simp add: py_split_not_Nil)
  have "py_split sep s = takeWhile (\<lambda>c. c \<noteq> sep) s # py_split sep ?t"
    using a assms by (simp add: hd_py_split tl_py_split)
  also have "py_split sep ?t = takeWhile (\<lambda>c. c \<noteq> sep) ?t # tl (py_split sep ?t)"
    using b by (simp add: hd_py_split)
  finally show ?thesis by blast
qed

lemma clean_response_lines:
  "py_split newline s = l0 # l1 # rest \<Longrightarrow>
   clean_response s = Inr (clean_line l0, clean_line l1)"
  by (simp add: clean_response_def py_index_def)

lemma clean_response_one_line:
  "py_split newline s = [l] \<Longrightarrow> clean_response s = Inr fallback"
  by (simp add: clean_response_def)

lemmas py_eval = ustr_def newline_def py_index_def clean_line_def py_strip_def
  py_lstrip_ws_def py_rstrip_ws_def py_isspace_def py_whitespace_def py_lstrip_def
  clean_response_def fallback_def

lemma rstrip_split: "rev (dropWhile P (rev t)) @ rev (takeWhile P (rev t)) = t"
  by (metis rev_append rev_rev_ident takeWhile_dropWhile_id)

lemma py_lstrip_ws_split:
  "py_lstrip_ws s = py_strip s @ rev (takeWhile py_isspace (rev (py_lstrip_ws s)))"
  by (simp add: py_strip_def py_rstrip_ws_def rstrip_split)

lemma py_strip_decomp:
  "\<exists>lead trail. s = lead @ py_strip s @ trail
     \<and> list_all py_isspace lead \<and> list_all py_isspace trail"
proof -
  let ?t = "py_lstrip_ws s"
  have a: "s = takeWhile py_isspace s @ ?t"
    by (simp add: py_lstrip_ws_def)
  have c: "list_all py_isspace (takeWhile py_isspace s)"
    by (simp add: list_all_iff) (meson set_takeWhileD)
  have d: "list_all py_isspace (rev (takeWhile py_isspace (rev ?t)))"
    by (simp add: list_all_iff) (meson set_takeWhileD)
  from a py_lstrip_ws_split [of s]
  have "s = takeWhile py_isspace s @ py_strip s @ rev (takeWhile py_isspace (rev ?t))"
    by simp
  with c d show ?thesis by blast
qed

lemma py_strip_hd: "py_strip s \<noteq> [] \<Longrightarrow> \<not> py_isspace (hd (py_strip s))"
proof -
  assume ne: "py_strip s \<noteq> []"
  let ?t = "py_lstrip_ws s"
  note b = py_lstrip_ws_split [of s]
  with ne have "?t \<noteq> []" by auto
  then have "\<not> py_isspace (hd ?t)"
    unfolding py_lstrip_ws_def by (rule hd_dropWhile)
  moreover from b ne have "hd ?t = hd (py_strip s)"
    by (metis hd_append2)
  ultimately show ?thesis by simp
qed

lemma py_strip_last: "py_strip s \<noteq> [] \<Longrightarrow> \<not> py_isspace (last (py_strip s))"
proof -
  assume ne: "py_strip s \<noteq> []"
  let ?r = "dropWhile py_isspace (rev (py_lstrip_ws s))"
  from ne have r: "?r \<noteq> []" by (simp add: py_strip_def py_rstrip_ws_def)
  then have "\<not> py_isspace (hd ?r)" by (rule hd_dropWhile)
  moreover have "last (py_strip s) = hd ?r"
    using r by (simp add: py_strip_def py_rstrip_ws_def last_rev)
  ultimately show ?thesis by simp
qed

lemma py_lstrip_decomp:
  "\<exists>pre. s = pre @ py_lstrip chars s \<and> list_all (\<lambda>c. c \<in> set chars) pre"
proof -
  have "s = takeWhile (\<lambda>c. c \<in> set chars) s @ py_lstrip chars s"
    by (simp add: py_lstrip_def)
  moreover have "list_all (\<lambda>c. c \<in> set chars) (takeWhile (\<lambda>c. c \<in> set chars) s)"
    by (simp add: list_all_iff) (meson set_takeWhileD)
  ultimately show ?thesis by blast
qed

lemma py_lstrip_hd: "py_lstrip chars s \<noteq> [] \<Longrightarrow> hd (py_lstrip chars s) \<notin> set chars"
  unfolding py_lstrip_def by (rule hd_dropWhile)

section \<open>The response parser\<close>

text \<open>
  Claim C1, as the specification states it: when fewer than two non-empty lines remain
  after cleaning, \<open>clean_response\<close> returns the fallback pair, and so it does on
  \<open>"E-waste\n\n"\<close>. The code counts all the lines, the blank ones too: that input has the
  three cleaned lines \<open>E-waste\<close>, empty, empty, and the result is the pair of the first
  two, not the fallback pair.
\<close>

theorem clean_response_blank_line_counterexample:
  "map clean_line (py_split newline (ustr ''E-waste\<newline>\<newline>'')) = [ustr ''E-waste'', [], []]
   \<and> clean_response (ustr ''E-waste\<newline>\<newline>'') = Inr (ustr ''E-waste'', [])
   \<and> clean_response (ustr ''E-waste\<newline>\<newline>'') \<noteq> Inr fallback"
  by (simp add: py_eval)

text \<open>
  Claim C1, amended: when the text has fewer than two lines in all, blank lines counted,
  \<open>clean_response\<close> returns the fallback pair; on \<open>"E-waste\n\n"\<close>, which has three lines,
  it returns the category \<open>E-waste\<close> with an empty advice.
\<close>

theorem clean_response_fewer_than_two_lines:
  "(length (py_split newline raw_text) < 2 \<longrightarrow> clean_response raw_text = Inr fallback)
   \<and> clean_response (ustr ''E-waste\<newline>\<newline>'') = Inr (ustr ''E-waste'', [])"
proof -
  have "clean_response (ustr ''E-waste\<newline>\<newline>'') = Inr (ustr ''E-waste'', [])"
    by (simp add: py_eval)
  moreover have "length (py_split newline raw_text) < 2 \<longrightarrow> clean_response raw_text = Inr fallback"
    by (simp add: clean_response_def)
  ultimately show ?thesis by blast
qed

theorem clean_response_fewer_than_two_lines_witness:
  "length (py_split newline (ustr ''E-waste'')) < 2
   \<and> clean_response (ustr ''E-waste'') = Inr fallback"
  using clean_response_fewer_than_two_lines [of "ustr ''E-waste''"]
  by (simp add: ustr_def newline_def)

text \<open>
  Claim C2, as the specification states it: with at least two non-empty lines,
  \<open>clean_response\<close> returns the first two non-empty lines, cleaned. The code takes the
  first two lines whether they are empty or not: in \<open>"Plastic\n\nRecycle bin"\<close> the two
  non-empty lines are \<open>Plastic\<close> and \<open>Recycle bin\<close>, and the advice returned is the empty
  second line.
\<close>

theorem clean_response_skips_no_blank_counterexample:
  "map clean_line (py_split newline (ustr ''Plastic\<newline>\<newline>Recycle bin''))
     = [ustr ''Plastic'', [], ustr ''Recycle bin'']
   \<and> clean_response (ustr ''Plastic\<newline>\<newline>Recycle bin'') = Inr (ustr ''Plastic'', [])
   \<and> clean_response (ustr ''Plastic\<newline>\<newline>Recycle bin'')
       \<noteq> Inr (ustr ''Plastic'', ustr ''Recycle bin'')"
  by (simp add: py_eval)

text \<open>
  Claim C2, amended: for every text with at least two lines (at least one newline),
  \<open>clean_response\<close> returns the first two lines, empty or not: the text before the first
  newline and the text between the first newline and the second (or the end), each
  trimmed of surrounding whitespace and then stripped of its leading run of digits, dots
  and spaces. On \<open>"Organic\nCompost at municipal facility."\<close> these are \<open>Organic\<close> and
  \<open>Compost at municipal facility.\<close>
\<close>

theorem clean_response_first_two_lines:
  "(newline \<in> set raw_text \<longrightarrow>
      clean_response raw_text =
        Inr (py_lstrip (ustr ''0123456789. '')
               (py_strip (takeWhile (\<lambda>c. c \<noteq> newline) raw_text)),
             py_lstrip (ustr ''0123456789. '')
               (py_strip (takeWhile (\<lambda>c. c \<noteq> newline)
                  (tl (dropWhile (\<lambda>c. c \<noteq> newline) raw_text))))))
   \<and> clean_response (ustr ''Organic\<newline>Compost at municipal facility.'')
       = Inr (ustr ''Organic'', ustr ''Compost at municipal facility.'')"
proof -
  have "clean_response (ustr ''Organic\<newline>Compost at municipal facility.'')
       = Inr (ustr ''Organic'', ustr ''Compost at municipal facility.'')"
    by (simp add: py_eval)
  moreover have "newline \<in> set raw_text \<longrightarrow>
      clean_response raw_text =
        Inr (py_lstrip (ustr ''0123456789. '')
               (py_strip (takeWhile (\<lambda>c. c \<noteq> newline) raw_text)),
             py_lstrip (ustr ''0123456789. '')
               (py_strip (takeWhile (\<lambda>c. c \<noteq> newline)
                  (tl (dropWhile (\<lambda>c. c \<noteq> newline) raw_text)))))"
  proof
    assume "newline \<in> set raw_text"
    then obtain rest where "py_split newline raw_text =
           takeWhile (\<lambda>c. c \<noteq> newline) raw_text
           # takeWhile (\<lambda>c. c \<noteq> newline) (tl (dropWhile (\<lambda>c. c \<noteq> newline) raw_text))
           # rest"
      using py_split_two by blast
    then show "clean_response raw_text =
        Inr (py_lstrip (ustr ''0123456789. '')
               (py_strip (takeWhile (\<lambda>c. c \<noteq> newline) raw_text)),
             py_lstrip (ustr ''0123456789. '')
               (py_strip (takeWhile (\<lambda>c. c \<noteq> newline)
                  (tl (dropWhile (\<lambda>c. c \<noteq> newline) raw_text)))))"
      by (simp add: clean_response_lines clean_line_def)
  qed
  ultimately show ?thesis by blast
qed

theorem clean_response_first_two_lines_witness:
  "newline \<in> set (ustr ''  Glass \<newline>\<newline>3. Bottle bank'')
   \<and> clean_response (ustr ''  Glass \<newline>\<newline>3. Bottle bank'') = Inr (ustr ''Glass'', [])"
  using clean_response_first_two_lines [of "ustr ''  Glass \<newline>\<newline>3. Bottle bank''"]
  by (simp add: py_eval)

text \<open>
  Claim C3: a text without a newline character, the empty string and every single-line
  text among them, makes \<open>clean_response\<close> return the fallback pair.
\<close>

theorem clean_response_single_line:
  "newline \<notin> set raw_text \<Longrightarrow> clean_response raw_text = Inr fallback"
  by (simp add: py_split_no_sep clean_response_one_line)

theorem clean_response_single_line_witness:
  "newline \<notin> set (ustr ''Plastic'') \<and> clean_response (ustr ''Plastic'') = Inr fallback
   \<and> newline \<notin> set [] \<and> clean_response [] = Inr fallback"
  using clean_response_single_line [of "ustr ''Plastic''"] clean_response_single_line [of "[]"]
  by (simp add: ustr_def newline_def)

text \<open>
  Claim C4: cleaning a line first strips the whitespace at both ends and then the leading
  run of digits, dots and spaces. The line is whitespace, then a run of such characters,
  then the cleaned line, then whitespace; what is left between the two runs of whitespace
  neither starts nor ends with whitespace, and the cleaned line does not start with a
  digit, a dot or a space. So \<open>"1. Plastic\n2. Recycle bin"\<close> gives \<open>Plastic\<close> and
  \<open>Recycle bin\<close>.
\<close>

theorem clean_line_strip_order:
  "(\<exists>lead num trail.
      line = lead @ num @ clean_line line @ trail
      \<and> py_strip line = num @ clean_line line
      \<and> list_all py_isspace lead \<and> list_all py_isspace trail
      \<and> list_all (\<lambda>c. c \<in> set (ustr ''0123456789. '')) num)
   \<and> (py_strip line = [] \<or>
        (\<not> py_isspace (hd (py_strip line)) \<and> \<not> py_isspace (last (py_strip line))))
   \<and> (clean_line line = [] \<or> hd (clean_line line) \<notin> set (ustr ''0123456789. ''))
   \<and> clean_response (ustr ''1. Plastic\<newline>2. Recycle bin'')
       = Inr (ustr ''Plastic'', ustr ''Recycle bin'')"
proof -
  obtain lead trail where a: "line = lead @ py_strip line @ trail"
      "list_all py_isspace lead" "list_all py_isspace trail"
    using py_strip_decomp by blast
  obtain num where b: "py_strip line = num @ clean_line line"
      "list_all (\<lambda>c. c \<in> set (ustr ''0123456789. '')) num"
    unfolding clean_line_def using py_lstrip_decomp by blast
  from a b have "line = lead @ num @ clean_line line @ trail" by simp
  with a b have 1: "\<exists>lead num trail.
      line = lead @ num @ clean_line line @ trail
      \<and> py_strip line = num @ clean_line line
      \<and> list_all py_isspace lead \<and> list_all py_isspace trail
      \<and> list_all (\<lambda>c. c \<in> set (ustr ''0123456789. '')) num"
    by blast
  have 2: "py_strip line = [] \<or>
        (\<not> py_isspace (hd (py_strip line)) \<and> \<not> py_isspace (last (py_strip line)))"
    using py_strip_hd py_strip_last by blast
  have 3: "clean_line line = [] \<or> hd (clean_line line) \<notin> set (ustr ''0123456789. '')"
    unfolding clean_line_def using py_lstrip_hd by blast
  have 4: "clean_response (ustr ''1. Plastic\<newline>2. Recycle bin'')
       = Inr (ustr ''Plastic'', ustr ''Recycle bin'')"
    by (simp add: py_eval)
  from 1 2 3 4 show ?thesis by blast
qed

theorem clean_line_strip_order_witness:
  "clean_line (ustr ''  12. Plastic  '') = ustr ''Plastic''
   \<and> py_strip (ustr ''  12. Plastic  '') = ustr ''12. Plastic''"
  using clean_line_strip_order [of "ustr ''  12. Plastic  ''"]
  by (simp add: py_eval)

text \<open>
  Claim C5: \<open>clean_response\<close> does not check the category against the vocabulary. The
  two-line text \<open>"Banana\nCompost it"\<close> has the first cleaned line \<open>Banana\<close>, which is none
  of the 16 entries of \<open>VALID_CATEGORIES\<close>, and \<open>Banana\<close> is the category returned.
\<close>

theorem clean_response_no_vocabulary_check:
  "length VALID_CATEGORIES = 16
   \<and> ustr ''Banana'' \<notin> set VALID_CATEGORIES
   \<and> length (py_split newline (ustr ''Banana\<newline>Compost it'')) = 2
   \<and> clean_response (ustr ''Banana\<newline>Compost it'') = Inr (ustr ''Banana'', ustr ''Compost it'')"
  by (simp add: py_eval VALID_CATEGORIES_def)

section \<open>The remote call and its failures\<close>

lemma clean_response_total:
  "\<exists>category advice. clean_response raw_text = Inr (category, advice)"
  by (auto simp add: clean_response_def py_index_def fallback_def Let_def)

text \<open>
  Some runs of \<open>classify_image\<close>: a well-formed reply, a reply without choices, and an
  interrupt during the call, which is not an \<open>Exception\<close> and is not caught.
\<close>

lemma classify_image_well_formed:
  "classify_image
     (\<lambda>req. Inr \<lparr>choices = [Some (ustr ''  Plastic\<newline>Recycle bin\<newline>'')]\<rparr>) (ustr ''QUJD'')
     = (Inr (ustr ''Plastic'', ustr ''Recycle bin''),
        [ChatCompletion (chat_request (ustr ''QUJD'')),
         Print (ustr ''full_response ....................... Plastic\<newline>Recycle bin'')])"
  by (simp add: classify_image_def classify_try_def py_eval)

lemma classify_image_no_choices:
  "classify_image (\<lambda>req. Inr \<lparr>choices = []\<rparr>) (ustr ''QUJD'')
     = (Inr fallback,
        [ChatCompletion (chat_request (ustr ''QUJD'')),
         StError (ustr ''Classification error: list index out of range'')])"
  by (simp add: classify_image_def classify_try_def py_index_def ustr_def)

lemma classify_image_interrupt:
  "classify_image (\<lambda>req. Inl (BaseException (ustr ''KeyboardInterrupt''))) (ustr ''QUJD'')
     = (Inl (BaseException (ustr ''KeyboardInterrupt'')),
        [ChatCompletion (chat_request (ustr ''QUJD''))])"
  by (simp add: classify_image_def classify_try_def ustr_def)

text \<open>
  Claim C6: every exception (instance of \<open>Exception\<close>) that the remote call raises inside
  \<open>classify_image\<close> is caught there: the result is the fallback pair, and the error
  notice \<open>Classification error: ...\<close> is shown after the request. The same holds for every
  \<open>Exception\<close> raised anywhere in the \<open>try\<close> block, a malformed reply included, so
  \<open>classify_image\<close> never ends by raising an \<open>Exception\<close>. And \<open>clean_response\<close> returns
  a pair for every string: it never raises.
\<close>

theorem classify_image_catches_exceptions:
  "(base64_image \<noteq> [] \<and> remote (chat_request base64_image) = Inl (Exception e) \<longrightarrow>
      classify_image remote base64_image =
        (Inr fallback,
         [ChatCompletion (chat_request base64_image),
          StError (ustr ''Classification error: '' @ str_exn e)]))
   \<and> (base64_image \<noteq> [] \<and> classify_try remote base64_image = (Inl (Exception e), log) \<longrightarrow>
      classify_image remote base64_image =
        (Inr fallback, log @ [StError (ustr ''Classification error: '' @ str_exn e)]))
   \<and> fst (classify_image remote base64_image) \<noteq> Inl (Exception e')
   \<and> (\<exists>category advice. clean_response raw_text = Inr (category, advice))"
proof -
  have 1: "base64_image \<noteq> [] \<and> remote (chat_request base64_image) = Inl (Exception e) \<longrightarrow>
      classify_image remote base64_image =
        (Inr fallback,
         [ChatCompletion (chat_request base64_image),
          StError (ustr ''Classification error: '' @ str_exn e)])"
    by (simp add: classify_image_def classify_try_def)
  have 2: "base64_image \<noteq> [] \<and> classify_try remote base64_image = (Inl (Exception e), log) \<longrightarrow>
      classify_image remote base64_image =
        (Inr fallback, log @ [StError (ustr ''Classification error: '' @ str_exn e)])"
    by (simp add: classify_image_def)
  have 3: "fst (classify_image remote base64_image) \<noteq> Inl (Exception e')"
    by (simp add: classify_image_def split: prod.splits sum.splits raised.splits)
  have 4: "\<exists>category advice. clean_response raw_text = Inr (category, advice)"
    by (rule clean_response_total)
  from 1 2 3 4 show ?thesis by blast
qed

theorem classify_image_catches_exceptions_witness:
  "ustr ''QUJD'' \<noteq> []
   \<and> (\<lambda>req. Inl (Exception (RemoteError (ustr ''rate limit exceeded''))))
         (chat_request (ustr ''QUJD''))
       = (Inl (Exception (RemoteError (ustr ''rate limit exceeded''))) :: raised + response)
   \<and> classify_image (\<lambda>req. Inl (Exception (RemoteError (ustr ''rate limit exceeded''))))
         (ustr ''QUJD'')
       = (Inr fallback,
          [ChatCompletion (chat_request (ustr ''QUJD'')),
           StError (ustr ''Classification error: rate limit exceeded'')])"
  using classify_image_catches_exceptions
    [of "ustr ''QUJD''" "\<lambda>req. Inl (Exception (RemoteError (ustr ''rate limit exceeded'')))"
        "RemoteError (ustr ''rate limit exceeded'')"]
  by (simp add: ustr_def)

text \<open>
  Claim C10: on an empty \<open>base64_image\<close>, \<open>classify_image\<close> shows \<open>Empty image input\<close> and
  returns the fallback pair at once. Whatever the remote service would do, no request is
  sent: the only event is the error notice.
\<close>

theorem classify_image_empty_input:
  "classify_image remote [] = (Inr fallback, [StError (ustr ''Empty image input'')])"
  by (simp add: classify_image_def)

section \<open>The prompt\<close>

text \<open>
  Claim C7: the prompt of the request is the fixed text with the vocabulary in the middle:
  the 16 entries, all different, joined with a comma and a space, in the order of
  \<open>VALID_CATEGORIES\<close>; every entry occurs exactly once in this enumeration.
\<close>

theorem prompt_enumerates_vocabulary:
  "length VALID_CATEGORIES = 16
   \<and> distinct VALID_CATEGORIES
   \<and> py_join (ustr '', '') VALID_CATEGORIES =
       ustr (''Recycling, Organic, Trash, Electronics, Miscellaneous, Plastic, Metal, '' @
             ''Glass, Paper, Textiles, Batteries, Hazardous Waste, Food Waste, '' @
             ''Bulky Waste, E-waste, Toxic Waste'')
   \<and> prompt_text (chat_request base64_image) =
       prompt_head @ py_join (ustr '', '') VALID_CATEGORIES @ prompt_tail
   \<and> map (\<lambda>c. occurrences c (py_join (ustr '', '') VALID_CATEGORIES)) VALID_CATEGORIES =
       [1, 1, 1, 1, 1, 1, 1, 1, 1, 1, 1, 1, 1, 1, 1, 1]"
proof -
  have 1: "length VALID_CATEGORIES = 16"
    by (simp add: VALID_CATEGORIES_def)
  have 2: "distinct VALID_CATEGORIES"
    by (simp add: VALID_CATEGORIES_def ustr_def)
  have 3: "py_join (ustr '', '') VALID_CATEGORIES =
       ustr (''Recycling, Organic, Trash, Electronics, Miscellaneous, Plastic, Metal, '' @
             ''Glass, Paper, Textiles, Batteries, Hazardous Waste, Food Waste, '' @
             ''Bulky Waste, E-waste, Toxic Waste'')"
    by (simp add: VALID_CATEGORIES_def ustr_def)
  have 4: "prompt_text (chat_request base64_image) =
       prompt_head @ py_join (ustr '', '') VALID_CATEGORIES @ prompt_tail"
    by (simp add: chat_request_def prompt_def)
  have 5: "map (\<lambda>c. occurrences c (py_join (ustr '', '') VALID_CATEGORIES)) VALID_CATEGORIES =
       [1, 1, 1, 1, 1, 1, 1, 1, 1, 1, 1, 1, 1, 1, 1, 1]"
    by (simp add: VALID_CATEGORIES_def ustr_def)
  from 1 2 3 4 5 show ?thesis by blast
qed

section \<open>Start-up\<close>

lemma init_with_key:
  "init [ustr ''GROQ_API_KEY'' \<mapsto> ustr ''gsk_1''] None
     = (Inr \<lparr>client_api_key = ustr ''gsk_1''\<rparr>, [CreateClient (ustr ''gsk_1'')])"
  by (simp add: init_def py_or_def py_truthy_def ustr_def)

text \<open>
  Claim C8: when no API key is passed to the constructor (\<open>None\<close> or the empty string)
  and \<open>GROQ_API_KEY\<close> is not available from the environment (unset or empty), the
  constructor shows the error and raises \<open>ValueError\<close> without creating a client; \<open>main\<close>
  then stops the script right after the page configuration, the title and the error,
  before anything of the rest of the page is run.
\<close>

theorem init_without_key_fails:
  assumes "\<not> py_truthy api_key" and "\<not> py_truthy (env (ustr ''GROQ_API_KEY''))"
  shows "init env api_key =
           (Inl (Exception (ValueError (ustr ''No API key provided''))),
            [StError (ustr ''No Groq API key found. Please set GROQ_API_KEY in .env file.'')])
         \<and> main env rest =
           (Stopped,
            [SetPageConfig (ustr ''Waste Classifier'') (ustr '':recycle:''),
             StTitle (0x1F30D # ustr '' Real-Time Waste Classification''),
             StError (ustr ''No Groq API key found. Please set GROQ_API_KEY in .env file.''),
             StStop])"
proof -
  have a: "\<not> py_truthy (py_or api_key (env (ustr ''GROQ_API_KEY'')))"
    using assms by (simp add: py_or_def)
  have b: "\<not> py_truthy (py_or None (env (ustr ''GROQ_API_KEY'')))"
    using assms by (simp add: py_or_def py_truthy_def)
  have i: "init env api_key =
           (Inl (Exception (ValueError (ustr ''No API key provided''))),
            [StError (ustr ''No Groq API key found. Please set GROQ_API_KEY in .env file.'')])"
    using a by (simp add: init_def Let_def)
  have j: "init env None =
           (Inl (Exception (ValueError (ustr ''No API key provided''))),
            [StError (ustr ''No Groq API key found. Please set GROQ_API_KEY in .env file.'')])"
    using b by (simp add: init_def Let_def)
  show ?thesis using i j by (simp add: main_def Let_def)
qed

theorem init_without_key_fails_witness:
  "\<not> py_truthy None \<and> \<not> py_truthy (Map.empty (ustr ''GROQ_API_KEY''))
   \<and> init Map.empty None =
           (Inl (Exception (ValueError (ustr ''No API key provided''))),
            [StError (ustr ''No Groq API key found. Please set GROQ_API_KEY in .env file.'')])
   \<and> main Map.empty (\<lambda>classifier. (Finished, [])) =
           (Stopped,
            [SetPageConfig (ustr ''Waste Classifier'') (ustr '':recycle:''),
             StTitle (0x1F30D # ustr '' Real-Time Waste Classification''),
             StError (ustr ''No Groq API key found. Please set GROQ_API_KEY in .env file.''),
             StStop])"
  using init_without_key_fails [of None Map.empty "\<lambda>classifier. (Finished, [])"]
  by (simp add: py_truthy_def)

section \<open>The image encoding\<close>

lemma byte_eqI:
  fixes a b :: byte
  assumes "bit a 0 = bit b 0" "bit a 1 = bit b 1" "bit a 2 = bit b 2" "bit a 3 = bit b 3"
    "bit a 4 = bit b 4" "bit a 5 = bit b 5" "bit a 6 = bit b 6" "bit a 7 = bit b 7"
  shows "a = b"
proof (rule bit_word_eqI)
  fix n assume "n < LENGTH(8)"
  then have "n < 8" by simp
  then consider "n = 0" | "n = 1" | "n = 2" | "n = 3" | "n = 4" | "n = 5" | "n = 6" | "n = 7"
    by linarith
  then show "bit a n = bit b n"
    using assms by cases simp_all
qed

text \<open>The four characters of a group carry six bits each.\<close>

lemma sextet_bound: "drop_bit 6 (x::byte) = 0 \<Longrightarrow> unat x < 64"
proof -
  assume "drop_bit 6 x = 0"
  then have "unat (drop_bit 6 x) = 0" by simp
  then have "unat x div 64 = 0" by (simp add: unat_drop_bit_eq drop_bit_eq_div unat_div)
  then show ?thesis by simp
qed

lemma sextet0: "drop_bit 6 (drop_bit 2 (a::byte)) = 0"
  by (rule byte_eqI) (simp_all add: bit_simps)

lemma sextet1: "drop_bit 6 (push_bit 4 ((a::byte) AND 3) OR drop_bit 4 (b::byte)) = 0"
  by (rule byte_eqI) (simp_all add: bit_simps)

lemma sextet1_last: "drop_bit 6 (push_bit 4 ((a::byte) AND 3)) = 0"
  by (rule byte_eqI) (simp_all add: bit_simps)

lemma sextet2: "drop_bit 6 (push_bit 2 ((b::byte) AND 15) OR drop_bit 6 (c::byte)) = 0"
  by (rule byte_eqI) (simp_all add: bit_simps)

lemma sextet2_last: "drop_bit 6 (push_bit 2 ((b::byte) AND 15)) = 0"
  by (rule byte_eqI) (simp_all add: bit_simps)

lemma sextet3: "drop_bit 6 ((c::byte) AND 63) = 0"
  by (rule byte_eqI) (simp_all add: bit_simps)

lemmas sextets = sextet0 sextet1 sextet1_last sextet2 sextet2_last sextet3

text \<open>The characters of the alphabet, and how \<open>b64_value\<close> reads them back.\<close>

lemma b64_alphabet:
  "map b64_char [0..<64]
     = ustr ''ABCDEFGHIJKLMNOPQRSTUVWXYZabcdefghijklmnopqrstuvwxyz0123456789+/''"
  by (simp add: upt_rec b64_char_def ustr_def)

lemma b64_value_char: "n < 64 \<Longrightarrow> b64_value (b64_char n) = Some (of_nat n)"
proof -
  assume "n < 64"
  then consider "n < 26" | "26 \<le> n \<and> n < 52" | "52 \<le> n \<and> n < 62" | "n = 62" | "n = 63"
    by linarith
  then show ?thesis
    by cases (auto simp add: b64_value_def b64_char_def)
qed

lemma b64_char_not_pad: "n < 64 \<Longrightarrow> b64_char n \<noteq> b64_pad"
  by (auto simp add: b64_char_def b64_pad_def)

lemma sextet_value: "drop_bit 6 (x::byte) = 0 \<Longrightarrow> b64_value (b64_char (unat x)) = Some x"
  using b64_value_char [of "unat x"] sextet_bound [of x] by simp

lemma sextet_not_pad: "drop_bit 6 (x::byte) = 0 \<Longrightarrow> b64_char (unat x) \<noteq> b64_pad"
  using b64_char_not_pad [of "unat x"] sextet_bound [of x] by simp

text \<open>The three bytes of a group, put together again from its four six-bit values.\<close>

lemma byte0_restored:
  "push_bit 2 (drop_bit 2 a) OR drop_bit 4 (push_bit 4 a) AND 3 = (a::byte)"
  by (rule byte_eqI) (simp_all add: bit_simps)

lemma byte1_restored:
  "push_bit 4 (drop_bit 4 b) OR drop_bit 2 (push_bit 2 b) AND 15 = (b::byte)"
  by (rule byte_eqI) (simp_all add: bit_simps)

lemma byte2_restored: "push_bit 6 (drop_bit 6 c) OR c AND 63 = (c::byte)"
  by (rule byte_eqI) (simp_all add: bit_simps)

lemma b64decode_b64encode: "b64decode (b64encode data) = Some data"
proof (induction data rule: b64encode.induct)
  case 1
  show ?case by simp
next
  case (2 a)
  show ?case
    by (simp add: sextet_value sextets byte0_restored)
next
  case (3 a b)
  show ?case
    by (simp add: sextet_value sextet_not_pad sextets byte0_restored byte1_restored)
next
  case (4 a b c data)
  then show ?case
    by (simp add: sextet_value sextet_not_pad sextets
          byte0_restored byte1_restored byte2_restored)
qed

lemma b64encode_jpeg_marker: "b64encode [0xFF, 0xD8, 0xFF, 0xE0] = ustr ''/9j/4A==''"
  by (simp add: b64_char_def ustr_def b64_pad_def)

text \<open>
  Claim C9: whenever the compression of a frame returns a byte buffer, \<open>encode_image\<close>
  returns a text, and base64-decoding this text gives back exactly the bytes of the
  compressed buffer (not the pixels of the frame, which the model never looks at).
\<close>

theorem encode_image_round_trip:
  "imencode frame = Inr (retval, encoded_image) \<Longrightarrow>
   \<exists>text. encode_image imencode frame = Inr text \<and> b64decode text = Some encoded_image"
  by (simp add: encode_image_def b64decode_b64encode)

theorem encode_image_round_trip_witness:
  "(\<lambda>frame. Inr (True, [0xFF, 0xD8, 0xFF, 0xE0])) ()
       = (Inr (True, [0xFF, 0xD8, 0xFF, 0xE0]) :: raised + bool \<times> byte list)
   \<and> encode_image (\<lambda>frame. Inr (True, [0xFF, 0xD8, 0xFF, 0xE0])) () = Inr (ustr ''/9j/4A=='')
   \<and> b64decode (ustr ''/9j/4A=='') = Some [0xFF, 0xD8, 0xFF, 0xE0]"
proof -
  let ?imencode = "\<lambda>frame::unit. Inr (True, [0xFF, 0xD8, 0xFF, 0xE0]) :: raised + bool \<times> byte list"
  have e: "encode_image ?imencode () = Inr (ustr ''/9j/4A=='')"
    by (simp add: encode_image_def b64encode_jpeg_marker del: b64encode.simps)
  have "?imencode () = Inr (True, [0xFF, 0xD8, 0xFF, 0xE0])"
    by simp
  then obtain encoded where t: "encode_image ?imencode () = Inr encoded"
      "b64decode encoded = Some [0xFF, 0xD8, 0xFF, 0xE0]"
    using encode_image_round_trip [of ?imencode "()" True "[0xFF, 0xD8, 0xFF, 0xE0]"]
    by blast
  from e t have "b64decode (ustr ''/9j/4A=='') = Some [0xFF, 0xD8, 0xFF, 0xE0]"
    by simp
  with e show ?thesis by simp
qed

end
